theory Spec2Isabelle
  imports Complex_Main "HOL-Library.Word"
begin

section \<open>The session transport manager of \<open>WebSocketContext.tsx\<close>\<close>

text \<open>
  The provider component keeps four pieces of React state (\<open>isConnected\<close>,
  \<open>connectionStatus\<close>, \<open>lastMessage\<close>, \<open>messages\<close>) and three refs (\<open>wsRef\<close>,
  \<open>reconnectTimeoutRef\<close>, \<open>reconnectAttemptsRef\<close>). Its functions are event handlers of a
  single-threaded event loop, so each of them is a function from the state before to the
  state after. What the browser owns is written into the state as well: the sockets that
  \<open>new WebSocket\<close> has created, the timers that \<open>setTimeout\<close> has created, the frames handed
  to \<open>send\<close>, the \<open>close\<close> calls, the toasts and the console.

  No function of the component reads a piece of React state: they read the refs, and the
  \<open>token\<close> and \<open>isAuthenticated\<close> of their render. So a state setter is modelled as an
  assignment; \<open>setMessages\<close> is called with an updater function, which appends to the list
  as it is when the update is applied.
\<close>

subsection \<open>Values\<close>

text \<open>
  What \<open>JSON.parse\<close> returns. A number is a real (every finite double is one); the
  handlers read of a number only whether it is zero. An object is its key/value pairs in
  source order; on a duplicate key the last pair is the property's value.
\<close>

datatype json =
    JNull
  | JBool bool
  | JNum real
  | JStr string
  | JArr "json list"
  | JObj "(string \<times> json) list"

datatype exn = SyntaxError | TypeError | InvalidStateError

datatype session_type = Interview | Coding

datatype conn_status = Connecting | Connected | Disconnected | Error_status

datatype ready_state = CONNECTING | OPEN | CLOSING | CLOSED

text \<open>
  A text frame is recorded as the value given to \<open>JSON.stringify\<close>, a binary frame as the
  bytes of the \<open>ArrayBuffer\<close>.
\<close>

datatype frame = Text json | Binary "8 word list"

datatype toast = Toast_success json | Toast_error json

text \<open>The arguments of one \<open>console.log\<close> or \<open>console.error\<close> call; a template literal is
  the list of its pieces.\<close>

datatype logged = Txt string | Num nat | Val "json option" | Exn exn | Evt

datatype console_entry = Console_log "logged list" | Console_error "logged list"

text \<open>What \<open>useAuth()\<close> gave the render whose \<open>connect\<close> is called.\<close>

record auth =
  isAuthenticated :: bool
  token :: "string option"

text \<open>
  The handlers of a socket and the callback of a timer are closures of one call of
  \<open>connect\<close>: they see its \<open>sessionId\<close> and \<open>sessionType\<close>, and the \<open>token\<close> and
  \<open>isAuthenticated\<close> of the render that \<open>connect\<close> belongs to.
\<close>

record closure =
  c_auth :: auth
  c_sessionId :: string
  c_sessionType :: session_type

record socket =
  ws_url :: string
  readyState :: ready_state
  handlers :: closure

record timer =
  delay :: nat
  pending :: bool
  callback :: closure

text \<open>
  A socket or a timer is referred to by its position in \<open>sockets\<close> or \<open>timers\<close>; both lists
  only grow. \<open>lastMessage\<close> is \<open>JNull\<close> where the source has \<open>null\<close>.
\<close>

record state =
  isConnected :: bool
  connectionStatus :: conn_status
  lastMessage :: json
  messages :: "json list"
  wsRef :: "nat option"
  reconnectTimeoutRef :: "nat option"
  reconnectAttempts :: nat
  sockets :: "socket list"
  timers :: "timer list"
  transmitted :: "(nat \<times> frame) list"
  close_calls :: "(nat \<times> nat \<times> string) list"
  toasts :: "toast list"
  console :: "console_entry list"

text \<open>
  What the code takes from its platform: \<open>JSON.parse\<close> (\<open>None\<close> where it throws a
  \<open>SyntaxError\<close>), whether \<open>new WebSocket\<close> accepts a URL (it throws a \<open>SyntaxError\<close>
  otherwise), and the build-time constant \<open>process.env.REACT_APP_WS_URL\<close>.
\<close>

record platform =
  JSON_parse :: "string \<Rightarrow> json option"
  url_accepted :: "string \<Rightarrow> bool"
  REACT_APP_WS_URL :: string

definition maxReconnectAttempts :: nat where
  "maxReconnectAttempts = 5"

definition initial_state :: state where
  "initial_state =
     \<lparr>isConnected = False, connectionStatus = Disconnected, lastMessage = JNull,
      messages = [], wsRef = None, reconnectTimeoutRef = None, reconnectAttempts = 0,
      sockets = [], timers = [], transmitted = [], close_calls = [], toasts = [],
      console = []\<rparr>"

subsection \<open>Platform operations\<close>

definition console_log :: "logged list \<Rightarrow> state \<Rightarrow> state" where
  "console_log args s = s\<lparr>console := console s @ [Console_log args]\<rparr>"

definition console_error :: "logged list \<Rightarrow> state \<Rightarrow> state" where
  "console_error args s = s\<lparr>console := console s @ [Console_error args]\<rparr>"

definition toast_success :: "json \<Rightarrow> state \<Rightarrow> state" where
  "toast_success c s = s\<lparr>toasts := toasts s @ [Toast_success c]\<rparr>"

definition toast_error :: "json \<Rightarrow> state \<Rightarrow> state" where
  "toast_error c s = s\<lparr>toasts := toasts s @ [Toast_error c]\<rparr>"

text \<open>JavaScript truthiness of a value; \<open>None\<close> is \<open>undefined\<close>.\<close>

fun truthy :: "json option \<Rightarrow> bool" where
  "truthy None = False"
| "truthy (Some JNull) = False"
| "truthy (Some (JBool b)) = b"
| "truthy (Some (JNum n)) = (n \<noteq> 0)"
| "truthy (Some (JStr t)) = (t \<noteq> [])"
| "truthy (Some (JArr xs)) = True"
| "truthy (Some (JObj kvs)) = True"

text \<open>\<open>!token\<close> holds for \<open>null\<close> and for the empty string.\<close>

fun token_missing :: "string option \<Rightarrow> bool" where
  "token_missing None = True"
| "token_missing (Some t) = (t = [])"

text \<open>
  The property read \<open>v.k\<close> on a value other than \<open>null\<close>, for the keys the handlers read
  (\<open>type\<close>, \<open>feedback\<close>, \<open>result\<close>, \<open>question\<close>, \<open>data\<close>, \<open>message\<close>): a parsed object has
  the property when the key is among its pairs, and no boolean, number, string or array
  has a property of these names.
\<close>

fun get_prop :: "json \<Rightarrow> string \<Rightarrow> json option" where
  "get_prop (JObj kvs) k = map_of (rev kvs) k"
| "get_prop v k = None"

text \<open>The socket a reference points to.\<close>

definition sock :: "state \<Rightarrow> nat \<Rightarrow> socket option" where
  "sock s i = (if i < length (sockets s) then Some (sockets s ! i) else None)"

definition set_readyState :: "nat \<Rightarrow> ready_state \<Rightarrow> state \<Rightarrow> state" where
  "set_readyState i r s =
     s\<lparr>sockets := (sockets s)[i := (sockets s ! i)\<lparr>readyState := r\<rparr>]\<rparr>"

text \<open>\<open>wsRef.current?.readyState === WebSocket.OPEN\<close>\<close>

definition ws_is_open :: "state \<Rightarrow> bool" where
  "ws_is_open s =
     (case wsRef s of
        None \<Rightarrow> False
      | Some i \<Rightarrow> (case sock s i of None \<Rightarrow> False | Some k \<Rightarrow> readyState k = OPEN))"

text \<open>
  \<open>WebSocket.send\<close>: throws \<open>InvalidStateError\<close> on a socket that is still connecting,
  transmits on an open one, and drops the data on a closing or closed one.
\<close>

definition ws_send :: "nat \<Rightarrow> frame \<Rightarrow> state \<Rightarrow> exn + state" where
  "ws_send i f s =
     (case sock s i of
        None \<Rightarrow> Inr s
      | Some k \<Rightarrow>
          (case readyState k of
             CONNECTING \<Rightarrow> Inl InvalidStateError
           | OPEN \<Rightarrow> Inr (s\<lparr>transmitted := transmitted s @ [(i, f)]\<rparr>)
           | CLOSING \<Rightarrow> Inr s
           | CLOSED \<Rightarrow> Inr s))"

text \<open>
  \<open>WebSocket.close(code, reason)\<close>: the call is recorded; a connecting or open socket
  starts closing, a closing or closed one is left as it is.
\<close>

definition ws_close :: "nat \<Rightarrow> nat \<Rightarrow> string \<Rightarrow> state \<Rightarrow> state" where
  "ws_close i code reason s =
     (let s1 = s\<lparr>close_calls := close_calls s @ [(i, code, reason)]\<rparr>
      in case sock s1 i of
           None \<Rightarrow> s1
         | Some k \<Rightarrow>
             (if readyState k = CONNECTING \<or> readyState k = OPEN
              then set_readyState i CLOSING s1 else s1))"

text \<open>\<open>setTimeout\<close> returns the handle of the new timer.\<close>

definition setTimeout :: "closure \<Rightarrow> nat \<Rightarrow> state \<Rightarrow> nat \<times> state" where
  "setTimeout cb d s =
     (length (timers s),
      s\<lparr>timers := timers s @ [\<lparr>delay = d, pending = True, callback = cb\<rparr>]\<rparr>)"

definition clearTimeout :: "nat \<Rightarrow> state \<Rightarrow> state" where
  "clearTimeout t s = s\<lparr>timers := (timers s)[t := (timers s ! t)\<lparr>pending := False\<rparr>]\<rparr>"

text \<open>
  \<open>new WebSocket(url)\<close> returns the new socket, in state \<open>CONNECTING\<close>. \<open>connect\<close>
  assigns the four handlers right after the construction, before any event of the socket
  can be delivered, so the socket is created with them.
\<close>

definition new_WebSocket ::
  "platform \<Rightarrow> string \<Rightarrow> closure \<Rightarrow> state \<Rightarrow> exn + (nat \<times> state)" where
  "new_WebSocket P u cl s =
     (if url_accepted P u
      then Inr (length (sockets s),
                s\<lparr>sockets := sockets s @
                     [\<lparr>ws_url = u, readyState = CONNECTING, handlers = cl\<rparr>]\<rparr>)
      else Inl SyntaxError)"

subsection \<open>The manager's functions\<close>

text \<open>
  \<open>Math.pow(2, n)\<close> is exact on the doubles for every \<open>n\<close> whose power is below the cap,
  and anything larger (up to \<open>Infinity\<close>) is cut to 30000 by \<open>Math.min\<close>, so the delay is
  the same number over the naturals.
\<close>

definition backoff_delay :: "nat \<Rightarrow> nat" where
  "backoff_delay n = min (1000 * 2 ^ n) 30000"

definition attemptReconnect :: "closure \<Rightarrow> state \<Rightarrow> state" where
  "attemptReconnect cl s =
     (if reconnectAttempts s \<ge> maxReconnectAttempts
      then toast_error (JStr ''Unable to reconnect. Please refresh the page.'') s
      else
        let s1 = s\<lparr>reconnectAttempts := reconnectAttempts s + 1\<rparr>;
            d = backoff_delay (reconnectAttempts s1);
            s2 = console_log [Txt ''Attempting to reconnect in '', Num d,
                              Txt ''ms (attempt '', Num (reconnectAttempts s1), Txt '')''] s1;
            (h, s3) = setTimeout cl d s2
        in s3\<lparr>reconnectTimeoutRef := Some h\<rparr>)"

definition auth_frame :: "string option \<Rightarrow> json" where
  "auth_frame tok =
     JObj [(''type'', JStr ''auth''),
           (''token'', case tok of None \<Rightarrow> JNull | Some t \<Rightarrow> JStr t)]"

text \<open>
  The handlers return the exception that leaves them, if any, next to the state: what a
  handler did before it threw stays done.
\<close>

definition onopen :: "closure \<Rightarrow> state \<Rightarrow> exn option \<times> state" where
  "onopen cl s =
     (let s1 = console_log [Txt ''WebSocket connected''] s;
          s2 = s1\<lparr>isConnected := True\<rparr>;
          s3 = s2\<lparr>connectionStatus := Connected\<rparr>;
          s4 = s3\<lparr>reconnectAttempts := 0\<rparr>
      in case wsRef s4 of
           None \<Rightarrow> (None, s4)
         | Some i \<Rightarrow>
             (case ws_send i (Text (auth_frame (token (c_auth cl)))) s4 of
                Inl e \<Rightarrow> (Some e, s4)
              | Inr s5 \<Rightarrow> (None, s5)))"

text \<open>\<open>message.type\<close> throws a \<open>TypeError\<close> when the parsed value is \<open>null\<close>.\<close>

definition handleWebSocketMessage :: "json \<Rightarrow> state \<Rightarrow> exn + state" where
  "handleWebSocketMessage message s =
     (if message = JNull then Inl TypeError
      else
        let ty = get_prop message ''type'' in
        if ty = Some (JStr ''connection_established'')
        then Inr (toast_success (JStr ''Connected to HireSmart AI'') s)
        else if ty = Some (JStr ''real_time_feedback'')
        then (if truthy (get_prop message ''feedback'')
              then Inr (console_log [Txt ''Real-time feedback:'',
                                     Val (get_prop message ''feedback'')] s)
              else Inr s)
        else if ty = Some (JStr ''coding_execution_result'')
        then (if truthy (get_prop message ''result'')
              then Inr (console_log [Txt ''Code execution result:'',
                                     Val (get_prop message ''result'')] s)
              else Inr s)
        else if ty = Some (JStr ''interview_question'')
        then (if truthy (get_prop message ''question'')
              then Inr (console_log [Txt ''New interview question:'',
                                     Val (get_prop message ''question'')] s)
              else Inr s)
        else if ty = Some (JStr ''error'')
        then
          (let m = (case get_prop message ''data'' of
                      None \<Rightarrow> None
                    | Some JNull \<Rightarrow> None
                    | Some d \<Rightarrow> get_prop d ''message'')
           in Inr (toast_error
                     (case m of
                        None \<Rightarrow> JStr ''An error occurred''
                      | Some v \<Rightarrow> if truthy m then v else JStr ''An error occurred'') s))
        else Inr (console_log [Txt ''Unhandled message type:'', Val ty] s))"

definition onmessage :: "platform \<Rightarrow> string \<Rightarrow> state \<Rightarrow> state" where
  "onmessage P data s =
     (case JSON_parse P data of
        None \<Rightarrow> console_error [Txt ''Error parsing WebSocket message:'', Exn SyntaxError] s
      | Some message \<Rightarrow>
          (let s1 = s\<lparr>lastMessage := message\<rparr>;
               s2 = s1\<lparr>messages := messages s1 @ [message]\<rparr>
           in (case handleWebSocketMessage message s2 of
                 Inl e \<Rightarrow> console_error [Txt ''Error parsing WebSocket message:'', Exn e] s2
               | Inr s3 \<Rightarrow> s3)))"

definition onclose :: "closure \<Rightarrow> nat \<Rightarrow> string \<Rightarrow> state \<Rightarrow> state" where
  "onclose cl code reason s =
     (let s1 = console_log [Txt ''WebSocket disconnected:'', Num code, Txt reason] s;
          s2 = s1\<lparr>isConnected := False\<rparr>;
          s3 = s2\<lparr>connectionStatus := Disconnected\<rparr>
      in if code \<noteq> 1000 \<and> reconnectAttempts s3 < maxReconnectAttempts
         then attemptReconnect cl s3
         else s3)"

definition onerror :: "state \<Rightarrow> state" where
  "onerror s =
     (let s1 = console_error [Txt ''WebSocket error:'', Evt] s;
          s2 = s1\<lparr>connectionStatus := Error_status\<rparr>
      in toast_error (JStr ''Connection error. Please check your internet connection.'') s2)"

definition connect ::
  "platform \<Rightarrow> auth \<Rightarrow> string \<Rightarrow> session_type \<Rightarrow> state \<Rightarrow> exn option \<times> state" where
  "connect P a sessionId sessionType s =
     (if \<not> isAuthenticated a \<or> token_missing (token a)
      then (None, console_error [Txt ''Cannot connect WebSocket: User not authenticated''] s)
      else if ws_is_open s
      then (None, console_log [Txt ''WebSocket already connected''] s)
      else
        let s1 = s\<lparr>connectionStatus := Connecting\<rparr>;
            wsUrl = (case sessionType of
                       Interview \<Rightarrow> REACT_APP_WS_URL P @ ''/ws/interview/'' @ sessionId
                     | Coding \<Rightarrow> REACT_APP_WS_URL P @ ''/ws/coding/'' @ sessionId)
        in (case new_WebSocket P wsUrl
                   \<lparr>c_auth = a, c_sessionId = sessionId, c_sessionType = sessionType\<rparr> s1 of
              Inr (w, s2) \<Rightarrow> (None, s2\<lparr>wsRef := Some w\<rparr>)
            | Inl e \<Rightarrow>
                (None,
                 (console_error [Txt ''Error creating WebSocket connection:'', Exn e] s1)
                   \<lparr>connectionStatus := Error_status\<rparr>)))"

text \<open>
  A timer handle is never falsy (a browser numbers its timers from 1, Node returns an
  object), so \<open>if (reconnectTimeoutRef.current)\<close> asks whether the ref holds a handle.
\<close>

definition disconnect :: "state \<Rightarrow> state" where
  "disconnect s =
     (let s1 = (case reconnectTimeoutRef s of
                  None \<Rightarrow> s
                | Some t \<Rightarrow> (clearTimeout t s)\<lparr>reconnectTimeoutRef := None\<rparr>);
          s2 = (case wsRef s1 of
                  None \<Rightarrow> s1
                | Some i \<Rightarrow> (ws_close i 1000 ''User disconnected'' s1)\<lparr>wsRef := None\<rparr>);
          s3 = s2\<lparr>isConnected := False\<rparr>;
          s4 = s3\<lparr>connectionStatus := Disconnected\<rparr>
      in s4\<lparr>reconnectAttempts := 0\<rparr>)"

text \<open>
  Inside the \<open>then\<close> branch the reference is not \<open>null\<close> and its socket is open, so
  \<open>wsRef.current.send\<close> neither fails on \<open>null\<close> nor throws; the model keeps both
  branches of the platform's \<open>send\<close>.
\<close>

definition sendMessage :: "json \<Rightarrow> state \<Rightarrow> exn option \<times> state" where
  "sendMessage message s =
     (if ws_is_open s
      then (case wsRef s of
              None \<Rightarrow> (Some TypeError, s)
            | Some i \<Rightarrow>
                (case ws_send i (Text message) s of
                   Inl e \<Rightarrow> (Some e, s)
                 | Inr s1 \<Rightarrow> (None, s1)))
      else
        (let s1 = console_error [Txt ''WebSocket is not connected''] s
         in (None, toast_error (JStr ''Connection lost. Please reconnect.'') s1)))"

definition sendBinaryData :: "8 word list \<Rightarrow> state \<Rightarrow> exn option \<times> state" where
  "sendBinaryData data s =
     (if ws_is_open s
      then (case wsRef s of
              None \<Rightarrow> (Some TypeError, s)
            | Some i \<Rightarrow>
                (case ws_send i (Binary data) s of
                   Inl e \<Rightarrow> (Some e, s)
                 | Inr s1 \<Rightarrow> (None, s1)))
      else
        (let s1 = console_error [Txt ''WebSocket is not connected''] s
         in (None, toast_error (JStr ''Connection lost. Please reconnect.'') s1)))"

definition clearMessages :: "state \<Rightarrow> state" where
  "clearMessages s = (s\<lparr>messages := []\<rparr>)\<lparr>lastMessage := JNull\<rparr>"

subsection \<open>The event loop\<close>

text \<open>
  One turn of the event loop: an event of a socket, a timer that fires, or a call of a
  consumer. The browser delivers \<open>open\<close> only to a connecting socket and sets it open
  first, \<open>message\<close> only to an open socket, \<open>close\<close> and \<open>error\<close> only to a socket that is
  not yet closed (\<open>close\<close> sets it closed first), and runs the callback of a timer only
  while the timer is pending, once: a timer that fires is no longer pending, like one that
  was cleared. The callback of a reconnect timer is \<open>connect(sessionId, sessionType)\<close> of
  the render that scheduled it. An exception that leaves a handler is reported by the
  browser and goes no further. The two effects of the component call \<open>disconnect\<close> (on
  unmount, and when the user is no longer authenticated): they are calls of \<open>disconnect\<close>
  here.
\<close>

datatype event =
    Ev_open nat
  | Ev_message nat string
  | Ev_close nat nat string
  | Ev_error nat
  | Ev_timeout nat
  | Call_connect auth string session_type
  | Call_disconnect
  | Call_sendMessage json
  | Call_sendBinaryData "8 word list"
  | Call_clearMessages

fun deliver :: "platform \<Rightarrow> event \<Rightarrow> state \<Rightarrow> state" where
  "deliver P (Ev_open i) s =
     (case sock s i of
        None \<Rightarrow> s
      | Some k \<Rightarrow>
          (if readyState k = CONNECTING
           then snd (onopen (handlers k) (set_readyState i OPEN s)) else s))"
| "deliver P (Ev_message i data) s =
     (case sock s i of
        None \<Rightarrow> s
      | Some k \<Rightarrow> (if readyState k = OPEN then onmessage P data s else s))"
| "deliver P (Ev_close i code reason) s =
     (case sock s i of
        None \<Rightarrow> s
      | Some k \<Rightarrow>
          (if readyState k \<noteq> CLOSED
           then onclose (handlers k) code reason (set_readyState i CLOSED s) else s))"
| "deliver P (Ev_error i) s =
     (case sock s i of
        None \<Rightarrow> s
      | Some k \<Rightarrow> (if readyState k \<noteq> CLOSED then onerror s else s))"
| "deliver P (Ev_timeout t) s =
     (if t < length (timers s) \<and> pending (timers s ! t)
      then (let cl = callback (timers s ! t)
            in snd (connect P (c_auth cl) (c_sessionId cl) (c_sessionType cl)
                      (clearTimeout t s)))
      else s)"
| "deliver P (Call_connect a sessionId sessionType) s = snd (connect P a sessionId sessionType s)"
| "deliver P Call_disconnect s = disconnect s"
| "deliver P (Call_sendMessage message) s = snd (sendMessage message s)"
| "deliver P (Call_sendBinaryData data) s = snd (sendBinaryData data s)"
| "deliver P Call_clearMessages s = clearMessages s"

fun run :: "platform \<Rightarrow> event list \<Rightarrow> state \<Rightarrow> state" where
  "run P [] s = s"
| "run P (e # es) s = run P es (deliver P e s)"

subsection \<open>Notions used by the statements\<close>

text \<open>An event that can set the attempt counter back to zero: an \<open>open\<close>, or a call of
  \<open>disconnect\<close>.\<close>

fun resets :: "event \<Rightarrow> bool" where
  "resets (Ev_open i) = True"
| "resets Call_disconnect = True"
| "resets e = False"

text \<open>An unexpected closure: a \<open>close\<close> event, delivered, whose code is not 1000.\<close>

fun unexpected_closure :: "event \<Rightarrow> state \<Rightarrow> bool" where
  "unexpected_closure (Ev_close i code reason) s =
     (case sock s i of None \<Rightarrow> False | Some k \<Rightarrow> readyState k \<noteq> CLOSED \<and> code \<noteq> 1000)"
| "unexpected_closure e s = False"

text \<open>The number of unexpected closures in a run that starts in \<open>s\<close>.\<close>

fun unexpected_closures :: "platform \<Rightarrow> event list \<Rightarrow> state \<Rightarrow> nat" where
  "unexpected_closures P [] s = 0"
| "unexpected_closures P (e # es) s =
     (if unexpected_closure e s then 1 else 0) + unexpected_closures P es (deliver P e s)"

text \<open>A consumer's call of one of the two send operations.\<close>

fun send_call :: "event \<Rightarrow> bool" where
  "send_call (Call_sendMessage m) = True"
| "send_call (Call_sendBinaryData d) = True"
| "send_call e = False"

subsection \<open>A concrete platform and concrete runs\<close>

text \<open>
  The statements below hold for every platform. Where one is applied to a concrete input,
  the platform is this one: a parser that accepts three texts and throws on any other,
  and a constructor that accepts every URL.
\<close>

definition demo_parse :: "string \<Rightarrow> json option" where
  "demo_parse d =
     (if d = ''null'' then Some JNull
      else if d = ''{}'' then Some (JObj [])
      else if d = ''{\"type\":\"connection_established\"}''
      then Some (JObj [(''type'', JStr ''connection_established'')])
      else None)"

definition demo_platform :: platform where
  "demo_platform =
     \<lparr>JSON_parse = demo_parse, url_accepted = (\<lambda>u. True),
      REACT_APP_WS_URL = ''ws://localhost:8000''\<rparr>"

definition demo_auth :: auth where
  "demo_auth = \<lparr>isAuthenticated = True, token = Some ''T''\<rparr>"

definition no_auth :: auth where
  "no_auth = \<lparr>isAuthenticated = False, token = None\<rparr>"

definition demo_closure :: closure where
  "demo_closure = \<lparr>c_auth = demo_auth, c_sessionId = ''abc123'', c_sessionType = Interview\<rparr>"

text \<open>A session whose first four reconnections have failed.\<close>

definition after_four_failures :: state where
  "after_four_failures = initial_state\<lparr>reconnectAttempts := 4\<rparr>"

definition demo_socket :: socket where
  "demo_socket =
     \<lparr>ws_url = ''ws://localhost:8000/ws/interview/abc123'', readyState = CONNECTING,
      handlers = demo_closure\<rparr>"

text \<open>\<open>connect\<close>; then the socket opens.\<close>

definition connect_only :: "event list" where
  "connect_only = [Call_connect demo_auth ''abc123'' Interview]"

definition open_session :: "event list" where
  "open_session = [Call_connect demo_auth ''abc123'' Interview, Ev_open 0]"

text \<open>\<open>connect\<close>, then the socket fails and each reconnection fails again: five
  unexpected closures, and a sixth.\<close>

definition five_closures :: "event list" where
  "five_closures =
     [Call_connect demo_auth ''abc123'' Interview,
      Ev_close 0 1006 [], Ev_timeout 0,
      Ev_close 1 1006 [], Ev_timeout 1,
      Ev_close 2 1006 [], Ev_timeout 2,
      Ev_close 3 1006 [], Ev_timeout 3,
      Ev_close 4 1006 [], Ev_timeout 4]"

definition sixth_closure :: "event list" where
  "sixth_closure = [Ev_close 5 1006 []]"

definition six_closures :: "event list" where
  "six_closures =
     [Call_connect demo_auth ''abc123'' Interview,
      Ev_close 0 1006 [], Ev_timeout 0,
      Ev_close 1 1006 [], Ev_timeout 1,
      Ev_close 2 1006 [], Ev_timeout 2,
      Ev_close 3 1006 [], Ev_timeout 3,
      Ev_close 4 1006 [], Ev_timeout 4,
      Ev_close 5 1006 []]"

text \<open>
  \<open>connect\<close> is called twice before the first socket has opened; the second call
  replaces the reference, and the first socket stays alive with its handlers.
  Then \<open>disconnect\<close>, and then the first socket opens.
\<close>

definition replaced_then_disconnected :: "event list" where
  "replaced_then_disconnected =
     [Call_connect demo_auth ''abc123'' Interview,
      Call_connect demo_auth ''abc123'' Interview,
      Call_disconnect]"

definition replaced_socket_opens :: "event list" where
  "replaced_socket_opens =
     [Call_connect demo_auth ''abc123'' Interview,
      Call_connect demo_auth ''abc123'' Interview,
      Call_disconnect,
      Ev_open 0]"

text \<open>
  \<open>connect\<close> is called twice, both sockets fail, and each failure schedules a timer;
  then \<open>disconnect\<close>, and then the timer of the first failure fires.
\<close>

definition two_timers_pending :: "event list" where
  "two_timers_pending =
     [Call_connect demo_auth ''abc123'' Interview,
      Call_connect demo_auth ''abc123'' Interview,
      Ev_close 0 1006 [], Ev_close 1 1006 []]"

definition two_timers_disconnect :: "event list" where
  "two_timers_disconnect =
     [Call_connect demo_auth ''abc123'' Interview,
      Call_connect demo_auth ''abc123'' Interview,
      Ev_close 0 1006 [], Ev_close 1 1006 [],
      Call_disconnect]"

definition first_timer_fires :: "event list" where
  "first_timer_fires =
     [Call_connect demo_auth ''abc123'' Interview,
      Call_connect demo_auth ''abc123'' Interview,
      Ev_close 0 1006 [], Ev_close 1 1006 [],
      Call_disconnect,
      Ev_timeout 0]"

section \<open>Properties\<close>

subsection \<open>What one handler does to the state\<close>

lemmas op_defs = console_log_def console_error_def toast_success_def toast_error_def
  setTimeout_def clearTimeout_def set_readyState_def

lemma attemptReconnect_below:
  "reconnectAttempts s < maxReconnectAttempts \<Longrightarrow>
   attemptReconnect cl s =
     s\<lparr>reconnectAttempts := reconnectAttempts s + 1,
       console := console s @
         [Console_log [Txt ''Attempting to reconnect in '',
                       Num (backoff_delay (reconnectAttempts s + 1)),
                       Txt ''ms (attempt '', Num (reconnectAttempts s + 1), Txt '')'']],
       timers := timers s @
         [\<lparr>delay = backoff_delay (reconnectAttempts s + 1), pending = True, callback = cl\<rparr>],
       reconnectTimeoutRef := Some (length (timers s))\<rparr>"
  by (simp add: attemptReconnect_def op_defs Let_def)

lemma onclose_reconnect:
  "code \<noteq> 1000 \<Longrightarrow> reconnectAttempts s < maxReconnectAttempts \<Longrightarrow>
   onclose cl code reason s =
     s\<lparr>console := console s @
         [Console_log [Txt ''WebSocket disconnected:'', Num code, Txt reason],
          Console_log [Txt ''Attempting to reconnect in '',
                       Num (backoff_delay (reconnectAttempts s + 1)),
                       Txt ''ms (attempt '', Num (reconnectAttempts s + 1), Txt '')'']],
       isConnected := False, connectionStatus := Disconnected,
       reconnectAttempts := reconnectAttempts s + 1,
       timers := timers s @
         [\<lparr>delay = backoff_delay (reconnectAttempts s + 1), pending = True, callback = cl\<rparr>],
       reconnectTimeoutRef := Some (length (timers s))\<rparr>"
  by (simp add: onclose_def attemptReconnect_below Let_def op_defs)

lemma onclose_quiet:
  "code = 1000 \<or> maxReconnectAttempts \<le> reconnectAttempts s \<Longrightarrow>
   onclose cl code reason s =
     s\<lparr>console := console s @
         [Console_log [Txt ''WebSocket disconnected:'', Num code, Txt reason]],
       isConnected := False, connectionStatus := Disconnected\<rparr>"
  by (auto simp add: onclose_def Let_def op_defs)

lemma onclose_transmitted: "transmitted (onclose cl code reason s) = transmitted s"
  by (simp add: onclose_def attemptReconnect_def op_defs Let_def)

lemma onclose_toasts: "toasts (onclose cl code reason s) = toasts s"
  by (simp add: onclose_def attemptReconnect_def op_defs Let_def)

lemma handle_throws:
  "handleWebSocketMessage m s = Inl e \<Longrightarrow> m = JNull \<and> e = TypeError"
  by (simp add: handleWebSocketMessage_def Let_def split: if_splits)

lemma handle_effect:
  assumes "handleWebSocketMessage m s = Inr s'"
  shows "lastMessage s' = lastMessage s" and "messages s' = messages s"
    and "connectionStatus s' = connectionStatus s" and "isConnected s' = isConnected s"
    and "wsRef s' = wsRef s" and "reconnectTimeoutRef s' = reconnectTimeoutRef s"
    and "reconnectAttempts s' = reconnectAttempts s" and "sockets s' = sockets s"
    and "timers s' = timers s" and "transmitted s' = transmitted s"
    and "close_calls s' = close_calls s"
    and "\<exists>ts. toasts s' = toasts s @ ts \<and> length ts \<le> 1"
    and "\<exists>cs. console s' = console s @ cs \<and> length cs \<le> 1"
  using assms
  by (auto simp add: handleWebSocketMessage_def Let_def op_defs split: if_splits)

lemma onmessage_failed:
  "JSON_parse P data = None \<Longrightarrow>
   onmessage P data s =
     s\<lparr>console := console s @
          [Console_error [Txt ''Error parsing WebSocket message:'', Exn SyntaxError]]\<rparr>"
  by (simp add: onmessage_def op_defs)

lemma onmessage_keeps:
  "connectionStatus (onmessage P data s) = connectionStatus s"
  "isConnected (onmessage P data s) = isConnected s"
  "wsRef (onmessage P data s) = wsRef s"
  "reconnectAttempts (onmessage P data s) = reconnectAttempts s"
  "reconnectTimeoutRef (onmessage P data s) = reconnectTimeoutRef s"
  "sockets (onmessage P data s) = sockets s"
  "timers (onmessage P data s) = timers s"
  "transmitted (onmessage P data s) = transmitted s"
  "close_calls (onmessage P data s) = close_calls s"
  by (auto simp add: onmessage_def Let_def op_defs handle_effect
           split: option.splits sum.splits)

lemma connect_keeps:
  "fst (connect P a sid sty s) = None"
  "reconnectAttempts (snd (connect P a sid sty s)) = reconnectAttempts s"
  "timers (snd (connect P a sid sty s)) = timers s"
  "reconnectTimeoutRef (snd (connect P a sid sty s)) = reconnectTimeoutRef s"
  "transmitted (snd (connect P a sid sty s)) = transmitted s"
  "toasts (snd (connect P a sid sty s)) = toasts s"
  by (simp_all add: connect_def new_WebSocket_def op_defs Let_def split: session_type.splits)

lemma connect_creates:
  assumes "isAuthenticated a" and "\<not> token_missing (token a)" and "\<not> ws_is_open s"
    and "url_accepted P
           (REACT_APP_WS_URL P @
            (case sessionType of Interview \<Rightarrow> ''/ws/interview/'' | Coding \<Rightarrow> ''/ws/coding/'') @
            sessionId)"
  shows "connect P a sessionId sessionType s =
           (None,
            s\<lparr>connectionStatus := Connecting,
              sockets := sockets s @
                [\<lparr>ws_url = REACT_APP_WS_URL P @
                     (case sessionType of Interview \<Rightarrow> ''/ws/interview/''
                      | Coding \<Rightarrow> ''/ws/coding/'') @ sessionId,
                  readyState = CONNECTING,
                  handlers = \<lparr>c_auth = a, c_sessionId = sessionId,
                              c_sessionType = sessionType\<rparr>\<rparr>],
              wsRef := Some (length (sockets s))\<rparr>)"
  using assms
  by (cases sessionType) (simp_all add: connect_def new_WebSocket_def Let_def)

lemma onerror_keeps:
  "reconnectAttempts (onerror s) = reconnectAttempts s"
  "timers (onerror s) = timers s"
  "reconnectTimeoutRef (onerror s) = reconnectTimeoutRef s"
  "transmitted (onerror s) = transmitted s"
  by (simp_all add: onerror_def op_defs Let_def)

lemma send_keeps:
  "reconnectAttempts (snd (sendMessage m s)) = reconnectAttempts s"
  "timers (snd (sendMessage m s)) = timers s"
  "reconnectTimeoutRef (snd (sendMessage m s)) = reconnectTimeoutRef s"
  "reconnectAttempts (snd (sendBinaryData d s)) = reconnectAttempts s"
  "timers (snd (sendBinaryData d s)) = timers s"
  "reconnectTimeoutRef (snd (sendBinaryData d s)) = reconnectTimeoutRef s"
  by (simp_all add: sendMessage_def sendBinaryData_def ws_send_def op_defs
        split: option.splits sum.splits ready_state.splits)

lemma clearMessages_keeps:
  "reconnectAttempts (clearMessages s) = reconnectAttempts s"
  "timers (clearMessages s) = timers s"
  "reconnectTimeoutRef (clearMessages s) = reconnectTimeoutRef s"
  "transmitted (clearMessages s) = transmitted s"
  by (simp_all add: clearMessages_def)

lemma sock_set_readyState [simp]:
  "reconnectAttempts (set_readyState i r s) = reconnectAttempts s"
  "timers (set_readyState i r s) = timers s"
  "reconnectTimeoutRef (set_readyState i r s) = reconnectTimeoutRef s"
  "transmitted (set_readyState i r s) = transmitted s"
  "toasts (set_readyState i r s) = toasts s"
  by (simp_all add: set_readyState_def)

lemma clearTimeout_keeps [simp]:
  "reconnectAttempts (clearTimeout t s) = reconnectAttempts s"
  "length (timers (clearTimeout t s)) = length (timers s)"
  "reconnectTimeoutRef (clearTimeout t s) = reconnectTimeoutRef s"
  "transmitted (clearTimeout t s) = transmitted s"
  by (simp_all add: clearTimeout_def)

lemma sock_after_set:
  "sock s i = Some k \<Longrightarrow> sock (set_readyState i r s) i = Some (k\<lparr>readyState := r\<rparr>)"
  by (auto simp add: sock_def set_readyState_def split: if_splits)

lemma wsRef_set_readyState [simp]: "wsRef (set_readyState i r s) = wsRef s"
  by (simp add: set_readyState_def)

lemma onopen_state:
  "connectionStatus (snd (onopen cl s)) = Connected"
  "isConnected (snd (onopen cl s))"
  "reconnectAttempts (snd (onopen cl s)) = 0"
  by (simp_all add: onopen_def ws_send_def op_defs Let_def
        split: option.splits sum.splits ready_state.splits)

lemma onopen_sends:
  "transmitted (snd (onopen cl s)) = transmitted s \<or>
   (\<exists>j. wsRef s = Some j \<and>
        transmitted (snd (onopen cl s)) =
          transmitted s @ [(j, Text (auth_frame (token (c_auth cl))))])"
  by (simp add: onopen_def ws_send_def op_defs Let_def
        split: option.splits sum.splits ready_state.splits)

lemma onopen_timers: "timers (snd (onopen cl s)) = timers s"
  by (simp add: onopen_def ws_send_def op_defs Let_def
        split: option.splits sum.splits ready_state.splits)

lemma onopen_no_ref:
  "wsRef s = None \<Longrightarrow> transmitted (snd (onopen cl s)) = transmitted s"
  by (simp add: onopen_def op_defs Let_def)

lemma onopen_current:
  assumes "wsRef s = Some i" and "sock s i = Some k" and "readyState k = OPEN"
  shows "onopen cl s =
           (None, s\<lparr>console := console s @ [Console_log [Txt ''WebSocket connected'']],
                    isConnected := True, connectionStatus := Connected,
                    reconnectAttempts := 0,
                    transmitted := transmitted s @
                      [(i, Text (auth_frame (token (c_auth cl))))]\<rparr>)"
  using assms by (auto simp add: onopen_def ws_send_def sock_def op_defs Let_def split: if_splits)

lemma disconnect_transmitted: "transmitted (disconnect s) = transmitted s"
  by (simp add: disconnect_def ws_close_def op_defs Let_def split: option.splits)

lemma disconnect_effect:
  "reconnectTimeoutRef (disconnect s) = None"
  "wsRef (disconnect s) = None"
  "connectionStatus (disconnect s) = Disconnected"
  "\<not> isConnected (disconnect s)"
  "reconnectAttempts (disconnect s) = 0"
  "disconnect (disconnect s) = disconnect s"
  "close_calls (disconnect s) =
     (case wsRef s of None \<Rightarrow> close_calls s
      | Some i \<Rightarrow> close_calls s @ [(i, 1000, ''User disconnected'')])"
  by (simp_all add: disconnect_def ws_close_def op_defs Let_def split: option.splits)

lemma disconnect_cancels_held_timer:
  "reconnectTimeoutRef s = Some t \<Longrightarrow> t < length (timers s) \<Longrightarrow>
   \<not> pending (timers (disconnect s) ! t)"
  by (simp add: disconnect_def ws_close_def op_defs Let_def split: option.splits)

lemma disconnect_timers:
  "timers (disconnect s) =
     (case reconnectTimeoutRef s of None \<Rightarrow> timers s
      | Some u \<Rightarrow> (timers s)[u := (timers s ! u)\<lparr>pending := False\<rparr>])"
  by (simp add: disconnect_def ws_close_def op_defs Let_def split: option.splits)

lemma onclose_timers:
  "timers (onclose cl code reason s) = timers s \<or>
   (\<exists>x. timers (onclose cl code reason s) = timers s @ [x])"
  by (simp add: onclose_def attemptReconnect_def op_defs Let_def)

lemma pending_stays_off_list:
  "t < length ts \<Longrightarrow> \<not> pending (ts ! t) \<Longrightarrow>
   \<not> pending ((ts[u := (ts ! u)\<lparr>pending := False\<rparr>]) ! t)"
  by (cases "u = t") simp_all

subsection \<open>What one turn of the event loop does\<close>

lemma deliver_attempts:
  assumes "\<not> resets e"
  shows "reconnectAttempts (deliver P e s) =
           (if unexpected_closure e s \<and> reconnectAttempts s < maxReconnectAttempts
            then reconnectAttempts s + 1 else reconnectAttempts s)"
proof (cases e)
  case (Ev_close i code reason)
  show ?thesis
  proof (cases "unexpected_closure e s \<and> reconnectAttempts s < maxReconnectAttempts")
    case True
    then show ?thesis using Ev_close
      by (auto simp add: onclose_reconnect split: option.splits)
  next
    case False
    then show ?thesis using Ev_close
      by (auto simp add: onclose_quiet split: option.splits)
  qed
qed (use assms in \<open>simp_all add: onmessage_keeps connect_keeps onerror_keeps send_keeps
       clearMessages_keeps Let_def split: option.splits\<close>)

lemma deliver_timers:
  assumes "\<not> resets e"
  shows "length (timers (deliver P e s)) =
           (if unexpected_closure e s \<and> reconnectAttempts s < maxReconnectAttempts
            then length (timers s) + 1 else length (timers s))"
proof (cases e)
  case (Ev_close i code reason)
  show ?thesis
  proof (cases "unexpected_closure e s \<and> reconnectAttempts s < maxReconnectAttempts")
    case True
    then show ?thesis using Ev_close
      by (auto simp add: onclose_reconnect split: option.splits)
  next
    case False
    then show ?thesis using Ev_close
      by (auto simp add: onclose_quiet split: option.splits)
  qed
qed (use assms in \<open>simp_all add: onmessage_keeps connect_keeps onerror_keeps send_keeps
       clearMessages_keeps Let_def split: option.splits\<close>)

lemma deliver_timer_ref:
  assumes "\<not> resets e" and "maxReconnectAttempts \<le> reconnectAttempts s"
  shows "reconnectTimeoutRef (deliver P e s) = reconnectTimeoutRef s"
proof (cases e)
  case (Ev_close i code reason)
  then show ?thesis using assms
    by (auto simp add: onclose_quiet split: option.splits)
qed (use assms in \<open>simp_all add: onmessage_keeps connect_keeps onerror_keeps send_keeps
       clearMessages_keeps Let_def split: option.splits\<close>)

lemma run_attempts:
  assumes "\<forall>e\<in>set es. \<not> resets e" and "reconnectAttempts s \<le> maxReconnectAttempts"
  shows "reconnectAttempts (run P es s) =
           min (reconnectAttempts s + unexpected_closures P es s) maxReconnectAttempts
       \<and> length (timers (run P es s)) + reconnectAttempts s =
           length (timers s) + reconnectAttempts (run P es s)"
  using assms
proof (induction es arbitrary: s)
  case Nil
  then show ?case by simp
next
  case (Cons e es)
  have nr: "\<not> resets e" and rest: "\<forall>x\<in>set es. \<not> resets x"
    using Cons.prems(1) by simp_all
  have le: "reconnectAttempts (deliver P e s) \<le> maxReconnectAttempts"
    using Cons.prems(2) by (simp add: deliver_attempts [OF nr])
  from Cons.IH [OF rest le] show ?case
    using Cons.prems(2) by (auto simp add: deliver_attempts [OF nr] deliver_timers [OF nr])
qed

lemma run_timer_ref:
  assumes "\<forall>e\<in>set es. \<not> resets e" and "reconnectAttempts s = maxReconnectAttempts"
  shows "reconnectTimeoutRef (run P es s) = reconnectTimeoutRef s"
  using assms
proof (induction es arbitrary: s)
  case Nil
  then show ?case by simp
next
  case (Cons e es)
  have nr: "\<not> resets e" and rest: "\<forall>x\<in>set es. \<not> resets x"
    using Cons.prems(1) by simp_all
  have eq: "reconnectAttempts (deliver P e s) = maxReconnectAttempts"
    using Cons.prems(2) by (simp add: deliver_attempts [OF nr])
  from Cons.IH [OF rest eq] show ?case
    using Cons.prems(2) by (simp add: deliver_timer_ref [OF nr])
qed

lemma deliver_sends:
  "send_call e \<or> transmitted (deliver P e s) = transmitted s \<or>
   (\<exists>i k j. e = Ev_open i \<and> sock s i = Some k \<and> wsRef s = Some j \<and>
      transmitted (deliver P e s) =
        transmitted s @ [(j, Text (auth_frame (token (c_auth (handlers k)))))])"
proof (cases e)
  case (Ev_open i)
  show ?thesis
  proof (cases "sock s i")
    case None
    then show ?thesis using Ev_open by simp
  next
    case (Some k)
    from onopen_sends [of "handlers k" "set_readyState i OPEN s"]
    show ?thesis using Ev_open Some by auto
  qed
qed (simp_all add: onmessage_keeps connect_keeps onerror_keeps clearMessages_keeps
       onclose_transmitted disconnect_transmitted Let_def split: option.splits)

lemma cancelled_stays_cancelled:
  assumes "t < length (timers s)" and "\<not> pending (timers s ! t)"
  shows "t < length (timers (deliver P e s)) \<and> \<not> pending (timers (deliver P e s) ! t)"
proof (cases e)
  case (Ev_open i)
  then show ?thesis using assms
    by (simp add: onopen_timers split: option.splits)
next
  case (Ev_message i d)
  then show ?thesis using assms
    by (simp add: onmessage_keeps split: option.splits)
next
  case (Ev_close i code reason)
  show ?thesis
  proof (cases "sock s i")
    case None
    then show ?thesis using Ev_close assms by simp
  next
    case (Some k)
    from onclose_timers [of "handlers k" code reason "set_readyState i CLOSED s"]
    show ?thesis using Ev_close Some assms by (auto simp add: nth_append)
  qed
next
  case (Ev_error i)
  then show ?thesis using assms
    by (simp add: onerror_keeps split: option.splits)
next
  case (Ev_timeout u)
  then show ?thesis using assms
    by (simp add: connect_keeps Let_def clearTimeout_def pending_stays_off_list)
next
  case (Call_connect a sid sty)
  then show ?thesis using assms by (simp add: connect_keeps)
next
  case Call_disconnect
  then show ?thesis using assms
    by (simp add: disconnect_timers pending_stays_off_list split: option.splits)
next
  case (Call_sendMessage m)
  then show ?thesis using assms by (simp add: send_keeps)
next
  case (Call_sendBinaryData d)
  then show ?thesis using assms by (simp add: send_keeps)
next
  case Call_clearMessages
  then show ?thesis using assms by (simp add: clearMessages_keeps)
qed

lemma cancelled_never_fires:
  assumes "t < length (timers s)" and "\<not> pending (timers s ! t)"
  shows "t < length (timers (run P es s)) \<and> \<not> pending (timers (run P es s) ! t)
       \<and> deliver P (Ev_timeout t) (run P es s) = run P es s"
  using assms
proof (induction es arbitrary: s)
  case Nil
  then show ?case by simp
next
  case (Cons e es)
  from cancelled_stays_cancelled [OF Cons.prems, of P e]
  have "t < length (timers (deliver P e s))" and "\<not> pending (timers (deliver P e s) ! t)"
    by simp_all
  from Cons.IH [OF this] show ?case by simp
qed

lemma disconnect_held_timer_never_fires:
  assumes "reconnectTimeoutRef s = Some t" and "t < length (timers s)"
  shows "deliver P (Ev_timeout t) (run P es (disconnect s)) = run P es (disconnect s)"
proof -
  have "t < length (timers (disconnect s))"
    using assms by (simp add: disconnect_timers)
  moreover have "\<not> pending (timers (disconnect s) ! t)"
    using assms by (rule disconnect_cancels_held_timer)
  ultimately show ?thesis
    using cancelled_never_fires by blast
qed

subsection \<open>Evaluating a concrete run\<close>

lemmas run_defs = connect_def onopen_def onclose_def attemptReconnect_def onmessage_def
  onerror_def disconnect_def sendMessage_def sendBinaryData_def clearMessages_def
  new_WebSocket_def ws_send_def ws_close_def ws_is_open_def sock_def op_defs
  backoff_delay_def maxReconnectAttempts_def auth_frame_def Let_def
  initial_state_def demo_platform_def demo_auth_def demo_closure_def demo_parse_def
  no_auth_def demo_socket_def handleWebSocketMessage_def

subsection \<open>The attempt counter\<close>

text \<open>
  Claim C1. In a run without a successful open and without a call of \<open>disconnect\<close>, a
  session that starts with the attempt counter at 0 has it at \<open>min N 5\<close> after \<open>N\<close>
  unexpected closures, and exactly that many timers have been scheduled. Once the
  counter is 5, it stays 5, no run of such events adds a timer or changes the timer
  reference, and the handler of an unexpected closure leaves the timers as they are.
\<close>

theorem attempts_bounded:
  assumes "\<forall>e\<in>set es. \<not> resets e"
  shows "(reconnectAttempts s = 0 \<longrightarrow>
            reconnectAttempts (run P es s) = min (unexpected_closures P es s) 5
          \<and> length (timers (run P es s)) =
              length (timers s) + min (unexpected_closures P es s) 5)
       \<and> (reconnectAttempts s = 5 \<longrightarrow>
            reconnectAttempts (run P es s) = 5
          \<and> length (timers (run P es s)) = length (timers s)
          \<and> reconnectTimeoutRef (run P es s) = reconnectTimeoutRef s
          \<and> (code \<noteq> 1000 \<longrightarrow>
               timers (onclose cl code reason s) = timers s
             \<and> reconnectTimeoutRef (onclose cl code reason s) = reconnectTimeoutRef s
             \<and> reconnectAttempts (onclose cl code reason s) = 5))"
proof (intro conjI impI)
  assume z: "reconnectAttempts s = 0"
  then have le: "reconnectAttempts s \<le> maxReconnectAttempts" by simp
  from run_attempts [OF assms le, of P] z
  show "reconnectAttempts (run P es s) = min (unexpected_closures P es s) 5"
    and "length (timers (run P es s)) = length (timers s) + min (unexpected_closures P es s) 5"
    by (simp_all add: maxReconnectAttempts_def)
next
  assume m: "reconnectAttempts s = 5"
  then have le: "reconnectAttempts s \<le> maxReconnectAttempts"
    and eq: "reconnectAttempts s = maxReconnectAttempts"
    by (simp_all add: maxReconnectAttempts_def)
  from run_attempts [OF assms le, of P] m
  show "reconnectAttempts (run P es s) = 5"
    and "length (timers (run P es s)) = length (timers s)"
    by (simp_all add: maxReconnectAttempts_def)
  show "reconnectTimeoutRef (run P es s) = reconnectTimeoutRef s"
    by (rule run_timer_ref [OF assms eq])
  show "timers (onclose cl code reason s) = timers s"
    and "reconnectTimeoutRef (onclose cl code reason s) = reconnectTimeoutRef s"
    and "reconnectAttempts (onclose cl code reason s) = 5"
    using m by (simp_all add: onclose_quiet maxReconnectAttempts_def)
qed

theorem attempts_bounded_witness:
  "list_all (\<lambda>e. \<not> resets e) five_closures
   \<and> reconnectAttempts initial_state = 0
   \<and> unexpected_closures demo_platform five_closures initial_state = 5
   \<and> reconnectAttempts (run demo_platform five_closures initial_state) = 5
   \<and> length (timers (run demo_platform five_closures initial_state)) = 5
   \<and> list_all (\<lambda>e. \<not> resets e) sixth_closure
   \<and> unexpected_closures demo_platform sixth_closure
         (run demo_platform five_closures initial_state) = 1
   \<and> reconnectAttempts
         (run demo_platform sixth_closure (run demo_platform five_closures initial_state)) = 5
   \<and> length (timers
         (run demo_platform sixth_closure (run demo_platform five_closures initial_state))) = 5
   \<and> (1006::nat) \<noteq> 1000
   \<and> timers (onclose demo_closure 1006 [] (run demo_platform five_closures initial_state)) =
       timers (run demo_platform five_closures initial_state)"
proof -
  let ?s5 = "run demo_platform five_closures initial_state"
  have h1: "\<forall>e\<in>set five_closures. \<not> resets e"
    by (simp add: five_closures_def)
  have h2: "reconnectAttempts initial_state = 0"
    by (simp add: initial_state_def)
  have h3: "unexpected_closures demo_platform five_closures initial_state = 5"
    by (simp add: run_defs five_closures_def)
  have h4: "length (timers initial_state) = 0"
    by (simp add: initial_state_def)
  have a: "reconnectAttempts ?s5 = 5" and b: "length (timers ?s5) = 5"
    using attempts_bounded [OF h1, of initial_state demo_platform] h2 h3 h4 by simp_all
  have g1: "\<forall>e\<in>set sixth_closure. \<not> resets e"
    by (simp add: sixth_closure_def)
  have g3: "unexpected_closures demo_platform sixth_closure ?s5 = 1"
    by (simp add: run_defs five_closures_def sixth_closure_def)
  have c: "reconnectAttempts (run demo_platform sixth_closure ?s5) = 5"
    and d: "length (timers (run demo_platform sixth_closure ?s5)) = 5"
    and f: "timers (onclose demo_closure 1006 [] ?s5) = timers ?s5"
    using attempts_bounded [OF g1, of ?s5 demo_platform 1006 demo_closure "[]"] a b
    by simp_all
  show ?thesis
    using h1 h2 h3 a b g1 g3 c d f by (simp add: list_all_iff)
qed

subsection \<open>Backoff delay\<close>

text \<open>
  Claim C2. An unexpected closure below the maximum increments the attempt counter to
  some \<open>k\<close> with \<open>1 \<le> k \<le> 5\<close> and schedules one timer whose delay in milliseconds is
  exactly \<open>min (1000 * 2 ^ k) 30000\<close>; attempt 1 gives 2000 ms, attempt 2 gives 4000 ms
  and attempt 5 gives 30000 ms.
\<close>

theorem backoff_schedule:
  assumes "code \<noteq> 1000" and "reconnectAttempts s < maxReconnectAttempts"
  shows "reconnectAttempts (onclose cl code reason s) = reconnectAttempts s + 1
    \<and> 1 \<le> reconnectAttempts (onclose cl code reason s)
    \<and> reconnectAttempts (onclose cl code reason s) \<le> 5
    \<and> timers (onclose cl code reason s) =
        timers s @ [\<lparr>delay = backoff_delay (reconnectAttempts (onclose cl code reason s)),
                      pending = True, callback = cl\<rparr>]
    \<and> reconnectTimeoutRef (onclose cl code reason s) = Some (length (timers s))
    \<and> backoff_delay (reconnectAttempts (onclose cl code reason s)) =
        min (1000 * 2 ^ reconnectAttempts (onclose cl code reason s)) 30000
    \<and> backoff_delay 1 = 2000 \<and> backoff_delay 2 = 4000 \<and> backoff_delay 5 = 30000"
  using assms by (simp add: onclose_reconnect backoff_delay_def maxReconnectAttempts_def)

theorem backoff_schedule_witness:
  "(1006::nat) \<noteq> 1000
   \<and> reconnectAttempts after_four_failures < maxReconnectAttempts
   \<and> reconnectAttempts (onclose demo_closure 1006 [] after_four_failures) = 5
   \<and> timers (onclose demo_closure 1006 [] after_four_failures) =
       [\<lparr>delay = 30000, pending = True, callback = demo_closure\<rparr>]"
  using backoff_schedule [of 1006 after_four_failures demo_closure "[]"]
  by (simp add: after_four_failures_def initial_state_def maxReconnectAttempts_def)

subsection \<open>Exhausted retries\<close>

text \<open>
  Claim C3. The claim asks for a terminal notification when an unexpected closure finds
  the counter at 5. The toast exists in \<open>attemptReconnect\<close>, but \<open>onclose\<close> calls
  \<open>attemptReconnect\<close> only while the counter is below 5, so no closure ever reaches it
  (\<open>onclose_toasts\<close>). Here the run of five failed reconnections and a sixth closure
  is evaluated: the counter is 5 after the fifth closure, the sixth closure schedules no
  sixth timer and leaves the state disconnected, and no toast has been emitted.
\<close>

theorem exhausted_retries_silent:
  "unexpected_closures demo_platform six_closures initial_state = 6
   \<and> reconnectAttempts (run demo_platform five_closures initial_state) = 5
   \<and> toasts (run demo_platform five_closures initial_state) = []
   \<and> reconnectAttempts (run demo_platform six_closures initial_state) = 5
   \<and> toasts (run demo_platform six_closures initial_state) = []
   \<and> length (timers (run demo_platform six_closures initial_state)) = 5
   \<and> connectionStatus (run demo_platform six_closures initial_state) = Disconnected"
  by (simp add: run_defs five_closures_def six_closures_def)

subsection \<open>Opening\<close>

text \<open>
  Claim C4. The underlying socket is the one the manager's reference \<open>wsRef\<close> points to.
  When it opens, the state becomes connected and the attempt counter 0, whatever it was,
  and exactly one frame is transmitted, over that socket: the authentication frame with
  the token of the \<open>connect\<close> call that created the socket. Whatever the event, the
  manager transmits nothing but at most one authentication frame, unless the event is a
  consumer's call of \<open>sendMessage\<close> or \<open>sendBinaryData\<close>.
\<close>

theorem open_authenticates:
  assumes "sock s i = Some k" and "readyState k = CONNECTING" and "wsRef s = Some i"
  shows "connectionStatus (deliver P (Ev_open i) s) = Connected
    \<and> isConnected (deliver P (Ev_open i) s)
    \<and> reconnectAttempts (deliver P (Ev_open i) s) = 0
    \<and> transmitted (deliver P (Ev_open i) s) =
          transmitted s @
            [(i, Text (JObj [(''type'', JStr ''auth''),
                             (''token'', case token (c_auth (handlers k)) of
                                           None \<Rightarrow> JNull | Some t \<Rightarrow> JStr t)]))]
    \<and> (\<forall>e. send_call e \<or> transmitted (deliver P e s) = transmitted s \<or>
          (\<exists>i' k' j. e = Ev_open i' \<and> sock s i' = Some k' \<and> wsRef s = Some j \<and>
             transmitted (deliver P e s) =
               transmitted s @ [(j, Text (auth_frame (token (c_auth (handlers k')))))]))"
proof -
  let ?s1 = "set_readyState i OPEN s"
  have d: "deliver P (Ev_open i) s = snd (onopen (handlers k) ?s1)"
    using assms(1,2) by simp
  have k1: "sock ?s1 i = Some (k\<lparr>readyState := OPEN\<rparr>)"
    by (rule sock_after_set [OF assms(1)])
  have cur: "transmitted (snd (onopen (handlers k) ?s1)) =
        transmitted s @ [(i, Text (auth_frame (token (c_auth (handlers k)))))]"
    using k1 assms(3)
    by (simp add: onopen_current [where i = i and k = "k\<lparr>readyState := OPEN\<rparr>"])
  have "connectionStatus (deliver P (Ev_open i) s) = Connected"
    and "isConnected (deliver P (Ev_open i) s)"
    and "reconnectAttempts (deliver P (Ev_open i) s) = 0"
    unfolding d by (rule onopen_state)+
  moreover have "transmitted (deliver P (Ev_open i) s) =
        transmitted s @
          [(i, Text (JObj [(''type'', JStr ''auth''),
                           (''token'', case token (c_auth (handlers k)) of
                                         None \<Rightarrow> JNull | Some t \<Rightarrow> JStr t)]))]"
    unfolding d using cur by (simp add: auth_frame_def)
  ultimately show ?thesis
    using deliver_sends [of _ P s] by blast
qed

theorem open_authenticates_witness:
  "sock (run demo_platform connect_only initial_state) 0 = Some demo_socket
   \<and> readyState demo_socket = CONNECTING
   \<and> wsRef (run demo_platform connect_only initial_state) = Some 0
   \<and> connectionStatus (run demo_platform open_session initial_state) = Connected
   \<and> isConnected (run demo_platform open_session initial_state)
   \<and> reconnectAttempts (run demo_platform open_session initial_state) = 0
   \<and> transmitted (run demo_platform open_session initial_state) =
         [(0, Text (JObj [(''type'', JStr ''auth''), (''token'', JStr ''T'')]))]"
proof -
  let ?s1 = "run demo_platform connect_only initial_state"
  have k1: "sock ?s1 0 = Some demo_socket"
    by (simp add: run_defs connect_only_def)
  have c: "readyState demo_socket = CONNECTING"
    by (simp add: demo_socket_def)
  have r1: "wsRef ?s1 = Some 0"
    by (simp add: run_defs connect_only_def)
  have t1: "transmitted ?s1 = []"
    by (simp add: run_defs connect_only_def)
  have tok: "token (c_auth (handlers demo_socket)) = Some ''T''"
    by (simp add: demo_socket_def demo_closure_def demo_auth_def)
  have o: "run demo_platform open_session initial_state = deliver demo_platform (Ev_open 0) ?s1"
    by (simp add: open_session_def connect_only_def)
  from open_authenticates [OF k1 c r1, of demo_platform] t1 tok
  have a: "connectionStatus (deliver demo_platform (Ev_open 0) ?s1) = Connected"
    and a': "isConnected (deliver demo_platform (Ev_open 0) ?s1)"
    and b: "reconnectAttempts (deliver demo_platform (Ev_open 0) ?s1) = 0"
    and d: "transmitted (deliver demo_platform (Ev_open 0) ?s1) =
              [(0, Text (JObj [(''type'', JStr ''auth''), (''token'', JStr ''T'')]))]"
    by simp_all
  show ?thesis
    using k1 c r1 a a' b d by (simp only: o simp_thms)
qed

text \<open>
  A socket that the reference no longer points to is outside this statement. \<open>connect\<close>
  does not close the socket it replaces, and \<open>onopen\<close> sends through \<open>wsRef.current\<close>, not
  through the socket that opened. So when \<open>connect\<close> is called twice before the first
  socket has opened and \<open>disconnect\<close> follows, the first socket still opens: the state
  becomes connected although the manager holds no socket reference, and no frame is
  transmitted.
\<close>

lemma replaced_socket_open_sends_nothing:
  "sock (run demo_platform replaced_then_disconnected initial_state) 0 = Some demo_socket
   \<and> wsRef (run demo_platform replaced_then_disconnected initial_state) = None
   \<and> connectionStatus (run demo_platform replaced_socket_opens initial_state) = Connected
   \<and> transmitted (run demo_platform replaced_socket_opens initial_state) = []"
  by (simp add: run_defs replaced_then_disconnected_def replaced_socket_opens_def)

subsection \<open>Disconnecting\<close>

text \<open>
  Claim C5. \<open>disconnect\<close> cancels the timer whose handle is in \<open>reconnectTimeoutRef\<close>,
  closes the referenced socket with code 1000, leaves the state disconnected with the
  counter at 0 and is idempotent, and the timer it cancelled never runs its callback
  afterwards (\<open>disconnect_effect\<close>, \<open>disconnect_held_timer_never_fires\<close>). It does not
  cancel every pending reconnect timer:
  \<open>attemptReconnect\<close> overwrites the handle without clearing the timer it held. Here two
  sockets of one session fail, so two timers are pending and the reference holds the
  second; \<open>disconnect\<close> cancels the second only, and the first fires afterwards and
  invokes \<open>connect\<close>, which creates a third socket.
\<close>

theorem orphaned_timer_reconnects:
  "reconnectTimeoutRef (run demo_platform two_timers_pending initial_state) = Some 1
   \<and> map pending (timers (run demo_platform two_timers_pending initial_state)) = [True, True]
   \<and> map pending (timers (run demo_platform two_timers_disconnect initial_state)) = [True, False]
   \<and> connectionStatus (run demo_platform two_timers_disconnect initial_state) = Disconnected
   \<and> wsRef (run demo_platform two_timers_disconnect initial_state) = None
   \<and> length (sockets (run demo_platform two_timers_disconnect initial_state)) = 2
   \<and> length (sockets (run demo_platform first_timer_fires initial_state)) = 3
   \<and> wsRef (run demo_platform first_timer_fires initial_state) = Some 2
   \<and> connectionStatus (run demo_platform first_timer_fires initial_state) = Connecting"
  by (simp add: run_defs two_timers_pending_def two_timers_disconnect_def first_timer_fires_def)

subsection \<open>Inbound frames\<close>

text \<open>
  Claim C6. An inbound frame that \<open>JSON.parse\<close> rejects is logged and dropped: the handler
  adds one console entry and changes nothing else, so the message log, the last message,
  the toasts (no dispatch) and the connection state are as before; the same holds for
  the delivery of the event.
\<close>

theorem parse_failure_discarded:
  assumes "JSON_parse P data = None"
  shows "onmessage P data s =
           s\<lparr>console := console s @
                [Console_error [Txt ''Error parsing WebSocket message:'', Exn SyntaxError]]\<rparr>
    \<and> messages (onmessage P data s) = messages s
    \<and> lastMessage (onmessage P data s) = lastMessage s
    \<and> toasts (onmessage P data s) = toasts s
    \<and> connectionStatus (onmessage P data s) = connectionStatus s
    \<and> isConnected (onmessage P data s) = isConnected s
    \<and> messages (deliver P (Ev_message i data) s) = messages s
    \<and> lastMessage (deliver P (Ev_message i data) s) = lastMessage s
    \<and> toasts (deliver P (Ev_message i data) s) = toasts s
    \<and> connectionStatus (deliver P (Ev_message i data) s) = connectionStatus s
    \<and> isConnected (deliver P (Ev_message i data) s) = isConnected s"
  using assms by (simp add: onmessage_def op_defs split: option.splits)

theorem parse_failure_discarded_witness:
  "JSON_parse demo_platform ''{'' = None
   \<and> messages (onmessage demo_platform ''{'' initial_state) = []
   \<and> lastMessage (onmessage demo_platform ''{'' initial_state) = JNull
   \<and> toasts (onmessage demo_platform ''{'' initial_state) = []
   \<and> connectionStatus (onmessage demo_platform ''{'' initial_state) = Disconnected"
proof -
  have h: "JSON_parse demo_platform ''{'' = None"
    by (simp add: demo_platform_def demo_parse_def)
  from parse_failure_discarded [OF h, of initial_state] h
  show ?thesis by (simp add: initial_state_def)
qed

text \<open>
  Claim C10. For an inbound frame that parses, to any value, the handler appends the
  message to the log and makes it the last message; the connection state, the socket
  reference and the attempt counter are unchanged, and so are the timers, the sockets and
  what was transmitted. The dispatch adds at most one toast and at most one console
  entry.
\<close>

theorem dispatch_frame:
  assumes "JSON_parse P data = Some m"
  shows "lastMessage (onmessage P data s) = m
    \<and> messages (onmessage P data s) = messages s @ [m]
    \<and> connectionStatus (onmessage P data s) = connectionStatus s
    \<and> isConnected (onmessage P data s) = isConnected s
    \<and> wsRef (onmessage P data s) = wsRef s
    \<and> reconnectAttempts (onmessage P data s) = reconnectAttempts s
    \<and> reconnectTimeoutRef (onmessage P data s) = reconnectTimeoutRef s
    \<and> sockets (onmessage P data s) = sockets s
    \<and> timers (onmessage P data s) = timers s
    \<and> transmitted (onmessage P data s) = transmitted s
    \<and> close_calls (onmessage P data s) = close_calls s
    \<and> (\<exists>ts. toasts (onmessage P data s) = toasts s @ ts \<and> length ts \<le> 1)
    \<and> (\<exists>cs. console (onmessage P data s) = console s @ cs \<and> length cs \<le> 1)"
proof (cases "handleWebSocketMessage m (s\<lparr>lastMessage := m, messages := messages s @ [m]\<rparr>)")
  case (Inl e)
  then show ?thesis using assms by (simp add: onmessage_def Let_def op_defs)
next
  case (Inr s')
  from handle_effect [OF Inr] show ?thesis
    using assms Inr by (simp add: onmessage_def Let_def)
qed

theorem dispatch_frame_witness:
  "JSON_parse demo_platform ''{\"type\":\"connection_established\"}'' =
     Some (JObj [(''type'', JStr ''connection_established'')])
   \<and> messages (onmessage demo_platform ''{\"type\":\"connection_established\"}'' initial_state) =
       [JObj [(''type'', JStr ''connection_established'')]]
   \<and> lastMessage (onmessage demo_platform ''{\"type\":\"connection_established\"}'' initial_state)
       = JObj [(''type'', JStr ''connection_established'')]
   \<and> connectionStatus
         (onmessage demo_platform ''{\"type\":\"connection_established\"}'' initial_state) =
       Disconnected
   \<and> reconnectAttempts
         (onmessage demo_platform ''{\"type\":\"connection_established\"}'' initial_state) = 0
   \<and> wsRef (onmessage demo_platform ''{\"type\":\"connection_established\"}'' initial_state) =
       None"
proof -
  have h: "JSON_parse demo_platform ''{\"type\":\"connection_established\"}'' =
             Some (JObj [(''type'', JStr ''connection_established'')])"
    by (simp add: demo_platform_def demo_parse_def)
  from dispatch_frame [OF h, of initial_state] h
  show ?thesis by (simp add: initial_state_def)
qed

subsection \<open>Sending\<close>

text \<open>
  Claim C7. While the referenced socket is not open (or there is none), \<open>sendMessage\<close>
  and \<open>sendBinaryData\<close> throw nothing and transmit nothing: they add one console entry
  and one toast, and leave the rest of the state as it is.
\<close>

theorem send_when_not_open:
  assumes "\<not> ws_is_open s"
  shows "sendMessage m s =
           (None, s\<lparr>console := console s @ [Console_error [Txt ''WebSocket is not connected'']],
                    toasts := toasts s @
                      [Toast_error (JStr ''Connection lost. Please reconnect.'')]\<rparr>)
    \<and> sendBinaryData d s =
           (None, s\<lparr>console := console s @ [Console_error [Txt ''WebSocket is not connected'']],
                    toasts := toasts s @
                      [Toast_error (JStr ''Connection lost. Please reconnect.'')]\<rparr>)
    \<and> transmitted (snd (sendMessage m s)) = transmitted s
    \<and> transmitted (snd (sendBinaryData d s)) = transmitted s"
  using assms by (simp add: sendMessage_def sendBinaryData_def op_defs)

theorem send_when_not_open_witness:
  "\<not> ws_is_open initial_state
   \<and> fst (sendMessage (JStr ''hello'') initial_state) = None
   \<and> transmitted (snd (sendMessage (JStr ''hello'') initial_state)) = []
   \<and> toasts (snd (sendMessage (JStr ''hello'') initial_state)) =
       [Toast_error (JStr ''Connection lost. Please reconnect.'')]
   \<and> fst (sendBinaryData [1, 2] initial_state) = None
   \<and> transmitted (snd (sendBinaryData [1, 2] initial_state)) = []"
proof -
  have h: "\<not> ws_is_open initial_state"
    by (simp add: ws_is_open_def initial_state_def)
  from send_when_not_open [OF h, of "JStr ''hello''" "[1, 2]"] h
  show ?thesis by (simp add: initial_state_def)
qed

subsection \<open>Connecting\<close>

text \<open>
  Claim C8 as stated fails: \<open>connect\<close> without authentication emits no toast, so nothing
  is surfaced to the user.
\<close>

theorem connect_unauthenticated_silent:
  "\<not> isAuthenticated no_auth
   \<and> toasts (snd (connect demo_platform no_auth ''abc123'' Interview initial_state)) =
       toasts initial_state"
  by (simp add: run_defs)

text \<open>
  Claim C8, amended. \<open>connect\<close> called when the auth source does not report authenticated
  with a non-empty token throws nothing and changes nothing but the console, where it
  logs one error; no toast is emitted.
\<close>

theorem connect_unauthenticated:
  assumes "\<not> isAuthenticated a \<or> token_missing (token a)"
  shows "connect P a sessionId sessionType s =
           (None,
            s\<lparr>console := console s @
                 [Console_error [Txt ''Cannot connect WebSocket: User not authenticated'']]\<rparr>)
    \<and> toasts (snd (connect P a sessionId sessionType s)) = toasts s"
  using assms by (auto simp add: connect_def op_defs)

theorem connect_unauthenticated_witness:
  "\<not> isAuthenticated no_auth
   \<and> connect demo_platform no_auth ''abc123'' Interview initial_state =
       (None,
        initial_state\<lparr>console :=
          [Console_error [Txt ''Cannot connect WebSocket: User not authenticated'']]\<rparr>)"
proof -
  have h: "\<not> isAuthenticated no_auth \<or> token_missing (token no_auth)"
    by (simp add: no_auth_def)
  from connect_unauthenticated [OF h, of demo_platform "''abc123''" Interview initial_state]
  show ?thesis by (simp add: no_auth_def initial_state_def)
qed

text \<open>
  Claim C9. \<open>connect\<close> called while the referenced socket is open throws nothing and
  changes nothing but the console, where it logs one entry: no socket is created, and the
  socket reference, the connection state, the attempt counter and the message log are as
  before.
\<close>

theorem connect_when_open:
  assumes "ws_is_open s"
  shows "connect P a sessionId sessionType s =
           (None,
            s\<lparr>console := console s @
                 [if \<not> isAuthenticated a \<or> token_missing (token a)
                  then Console_error [Txt ''Cannot connect WebSocket: User not authenticated'']
                  else Console_log [Txt ''WebSocket already connected'']]\<rparr>)
    \<and> sockets (snd (connect P a sessionId sessionType s)) = sockets s
    \<and> wsRef (snd (connect P a sessionId sessionType s)) = wsRef s
    \<and> connectionStatus (snd (connect P a sessionId sessionType s)) = connectionStatus s
    \<and> isConnected (snd (connect P a sessionId sessionType s)) = isConnected s
    \<and> reconnectAttempts (snd (connect P a sessionId sessionType s)) = reconnectAttempts s
    \<and> messages (snd (connect P a sessionId sessionType s)) = messages s
    \<and> lastMessage (snd (connect P a sessionId sessionType s)) = lastMessage s"
  using assms by (simp add: connect_def op_defs)

theorem connect_when_open_witness:
  "ws_is_open (run demo_platform open_session initial_state)
   \<and> fst (connect demo_platform demo_auth ''abc123'' Interview
            (run demo_platform open_session initial_state)) = None
   \<and> sockets (snd (connect demo_platform demo_auth ''abc123'' Interview
                 (run demo_platform open_session initial_state))) =
       sockets (run demo_platform open_session initial_state)
   \<and> wsRef (snd (connect demo_platform demo_auth ''abc123'' Interview
                 (run demo_platform open_session initial_state))) =
       wsRef (run demo_platform open_session initial_state)"
proof -
  have h: "ws_is_open (run demo_platform open_session initial_state)"
    by (simp add: run_defs open_session_def)
  from connect_when_open [OF h, of demo_platform demo_auth "''abc123''" Interview] h
  show ?thesis by simp
qed

end
